theory Spec2Isabelle
  imports Complex_Main "HOL-Library.AList" "HOL-Library.Word" "HOL-Library.Log_Nat"
begin

section \<open>Data model of \<^verbatim>\<open>src/index.ts\<close>\<close>

text \<open>
  The canister keeps one table of saloons and exposes two queries and five updates.
  Every operation is modelled as a function of the environment of the call (caller,
  time, the identifier the uuid generator hands out), the arguments and the table; it
  returns the \<^verbatim>\<open>Result\<close> of the call together with the table afterwards.

  A \<^verbatim>\<open>Principal\<close> is only ever compared through \<^verbatim>\<open>toString()\<close>, so it is
  modelled by its text. \<^verbatim>\<open>nat64\<close> is a 64-bit word.
\<close>

type_synonym Principal = string
type_synonym nat64 = "64 word"

subsection \<open>Numbers\<close>

text \<open>
  A JavaScript \<^verbatim>\<open>number\<close> is an IEEE 754 double: a finite value, an infinity or
  \<^verbatim>\<open>NaN\<close>. A finite value is carried as the rational number it denotes; the two zeros
  are one value (they are equal under every comparison of the program, a rating starts at
  1 and never becomes \<open>-0\<close>, and adding \<open>-0\<close> to any other value is adding \<open>0\<close>).
  \<^verbatim>\<open>NaN\<close> is kept because every comparison with it is false, which matters for the
  range guard of \<^verbatim>\<open>rateSaloon\<close>.
\<close>

datatype number = Num rat | PInf | NInf | NaN

text \<open>
  Rounding to a binary format with \<open>p\<close> bits of precision and exponents from \<open>emin\<close>
  to \<open>emax\<close>, to the nearest value, ties to the even significand, as IEEE 754
  prescribes for every arithmetic operation and conversion. \<open>ilog2 x\<close> is the binary
  exponent \<open>\<lfloor>log\<^sub>2 x\<rfloor>\<close> of a positive \<open>x\<close>; below \<open>2\<^bsup>emin\<^esup>\<close> the spacing stays that of
  the subnormal numbers; a result beyond the largest finite value is an infinity.
\<close>

definition ilog2 :: "rat \<Rightarrow> int" where
  "ilog2 x = (let (n, d) = quotient_of x; e = bitlen n - bitlen d
              in if 2 powi e \<le> x then e else e - 1)"

definition round_even :: "rat \<Rightarrow> int" where
  "round_even q =
     (let f = \<lfloor>q\<rfloor>; r = q - of_int f
      in if r < 1 / 2 then f else if 1 / 2 < r then f + 1
         else if even f then f else f + 1)"

definition round_to :: "int \<Rightarrow> int \<Rightarrow> rat \<Rightarrow> rat" where
  "round_to p emin x =
     (if x = 0 then 0
      else let e = max (ilog2 \<bar>x\<bar>) emin; ulp = 2 powi (e - (p - 1))
           in of_int (round_even (x / ulp)) * ulp)"

definition to_format :: "int \<Rightarrow> int \<Rightarrow> int \<Rightarrow> rat \<Rightarrow> number" where
  "to_format p emin emax x =
     (let y = round_to p emin x
      in if y = 0 then Num 0
         else if emax < ilog2 \<bar>y\<bar> then (if 0 < y then PInf else NInf)
         else Num y)"

text \<open>The double and the \<^verbatim>\<open>float32\<close> nearest to a rational number. The numbers
  the program holds are doubles: the literal \<^verbatim>\<open>0.1\<close> is \<open>double 0.1\<close>, which is not
  \<open>Num 0.1\<close>.\<close>

definition double :: "rat \<Rightarrow> number" where
  "double x = to_format 53 (- 1022) 1023 x"

definition float32 :: "rat \<Rightarrow> number" where
  "float32 x = to_format 24 (- 126) 127 x"

text \<open>The operators the program applies to numbers: \<^verbatim>\<open>+\<close>, division by the literal
  \<^verbatim>\<open>5\<close>, and \<^verbatim>\<open><\<close>. The first two round their exact result to a double.\<close>

fun num_add :: "number \<Rightarrow> number \<Rightarrow> number" where
  "num_add (Num a) (Num b) = double (a + b)"
| "num_add NaN _ = NaN"
| "num_add _ NaN = NaN"
| "num_add PInf NInf = NaN"
| "num_add NInf PInf = NaN"
| "num_add PInf _ = PInf"
| "num_add _ PInf = PInf"
| "num_add NInf _ = NInf"
| "num_add _ NInf = NInf"

fun num_div5 :: "number \<Rightarrow> number" where
  "num_div5 (Num a) = double (a / 5)"
| "num_div5 v = v"

fun num_less :: "number \<Rightarrow> number \<Rightarrow> bool" where
  "num_less (Num a) (Num b) = (a < b)"
| "num_less NaN _ = False"
| "num_less _ NaN = False"
| "num_less NInf NInf = False"
| "num_less NInf _ = True"
| "num_less _ NInf = False"
| "num_less PInf _ = False"
| "num_less _ PInf = True"

text \<open>Narrowing a double to a \<^verbatim>\<open>float32\<close>, as the encoder of a \<^verbatim>\<open>float32\<close> field
  does.\<close>

fun fround :: "number \<Rightarrow> number" where
  "fround (Num x) = float32 x"
| "fround v = v"

subsection \<open>Records\<close>

datatype ('a, 'e) Result = Ok 'a | Err 'e

record SaloonPayload =
  saloonName :: string
  saloonLocation :: string
  attachmentURL :: string

record ServiceRenderedPayload =
  serviceName :: string
  serviceDescription :: string
  serviceAmount :: number

record ServiceRendered =
  id :: string
  serviceName :: string
  serviceDescription :: string
  serviceAmount :: number
  createdAt :: nat64

record Saloon =
  owner :: Principal
  id :: string
  saloonName :: string
  saloonLocation :: string
  attachmentURL :: string
  servicesRendered :: "ServiceRendered list"
  rating :: number
  createdAt :: nat64
  updatedAt :: "nat64 option"

text \<open>What a call reads from the platform: \<^verbatim>\<open>ic.caller()\<close>, \<^verbatim>\<open>ic.time()\<close> and the
  value of the one \<^verbatim>\<open>uuidv4()\<close> call an operation makes at most.\<close>

record env =
  ic_caller :: Principal
  ic_time :: nat64
  uuidv4 :: string

text \<open>
  The field \<^verbatim>\<open>rating\<close> is declared \<^verbatim>\<open>float32\<close>. A \<^verbatim>\<open>Saloon\<close> leaves the
  JavaScript code in two ways, as the reply of a call and as a value of the table, and
  both hold its Candid encoding, in which the rating is the \<^verbatim>\<open>float32\<close> nearest to
  the double the code computed. Read back from the table, a \<^verbatim>\<open>float32\<close> is a double
  of the same value. Only \<^verbatim>\<open>rateSaloon\<close> computes a new rating; the other operations
  write the constant 1 or the rating they read, which the encoding leaves as it is.
\<close>

definition encoded :: "Saloon \<Rightarrow> Saloon" where
  "encoded s = s\<lparr> Saloon.rating := fround (Saloon.rating s) \<rparr>"

subsection \<open>The table \<^verbatim>\<open>saloonStorage\<close>\<close>

text \<open>
  Modelled from the spec: \<^verbatim>\<open>StableBTreeMap\<close> is a class of the azle library, not of
  this repository. Section 4.1 of the specification gives its contract: \<^verbatim>\<open>get\<close> returns
  the value under a key or nothing, \<^verbatim>\<open>insert\<close> overwrites an existing key,
  \<^verbatim>\<open>remove\<close> returns the removed value or nothing, \<^verbatim>\<open>values\<close> lists all current
  entries in some deterministic order. The table is an association list; an insertion
  under an existing key replaces the entry where it stands, a new key goes to the end.
  The size limits given to the constructor (44 bytes of key, 1024 bytes of value) concern
  the serialised form of a record and are not modelled.
\<close>

type_synonym store = "(string \<times> Saloon) list"

definition storage_get :: "store \<Rightarrow> string \<Rightarrow> Saloon option" where
  "storage_get st k = map_of st k"

definition storage_insert :: "string \<Rightarrow> Saloon \<Rightarrow> store \<Rightarrow> store" where
  "storage_insert k v st = AList.update k v st"

definition storage_remove :: "string \<Rightarrow> store \<Rightarrow> Saloon option \<times> store" where
  "storage_remove k st = (map_of st k, AList.delete k st)"

definition storage_values :: "store \<Rightarrow> Saloon list" where
  "storage_values st = map snd st"

section \<open>The operations\<close>

text \<open>\<^verbatim>\<open>getAllSaloons\<close>. The \<^verbatim>\<open>catch\<close> branch is reached only if \<^verbatim>\<open>values()\<close> throws,
  which the table above never does.\<close>

definition getAllSaloons :: "store \<Rightarrow> (Saloon list, string) Result \<times> store" where
  "getAllSaloons st =
     (let saloons = storage_values st
      in if length saloons = 0 then (Err ''No saloons found.'', st)
         else (Ok saloons, st))"

text \<open>\<^verbatim>\<open>getSaloonById\<close>. \<^verbatim>\<open>!id\<close> holds of a string exactly when it is empty.\<close>

definition getSaloonById :: "string \<Rightarrow> store \<Rightarrow> (Saloon, string) Result \<times> store" where
  "getSaloonById i st =
     (if i = [] then (Err ''Invalid id'', st)
      else case storage_get st i of
             Some saloon \<Rightarrow> (Ok saloon, st)
           | None \<Rightarrow> (Err (''Saloon with id='' @ i @ '' does not exist''), st))"

text \<open>\<^verbatim>\<open>createSaloon\<close>. The payload is spread last, but its type has only the three text
  fields, so it overrides none of the fields set before it.\<close>

definition createSaloon :: "env \<Rightarrow> SaloonPayload \<Rightarrow> store \<Rightarrow> (Saloon, string) Result \<times> store" where
  "createSaloon e payload st =
     (if SaloonPayload.saloonName payload = [] \<or>
         SaloonPayload.saloonLocation payload = [] \<or>
         SaloonPayload.attachmentURL payload = []
      then (Err ''Missing required fields in payload'', st)
      else
        let saloon = \<lparr> Saloon.owner = ic_caller e,
                       Saloon.id = uuidv4 e,
                       Saloon.saloonName = SaloonPayload.saloonName payload,
                       Saloon.saloonLocation = SaloonPayload.saloonLocation payload,
                       Saloon.attachmentURL = SaloonPayload.attachmentURL payload,
                       Saloon.servicesRendered = [],
                       Saloon.rating = Num 1,
                       Saloon.createdAt = ic_time e,
                       Saloon.updatedAt = None \<rparr>
        in (Ok saloon, storage_insert (Saloon.id saloon) saloon st))"

text \<open>\<^verbatim>\<open>createService\<close>. The service record is built first; \<^verbatim>\<open>push\<close> appends it to the
  copy of the list that \<^verbatim>\<open>get\<close> returned.\<close>

definition createService ::
  "env \<Rightarrow> string \<Rightarrow> ServiceRenderedPayload \<Rightarrow> store \<Rightarrow> (Saloon, string) Result \<times> store" where
  "createService e i payload st =
     (let serviceRendered =
            \<lparr> ServiceRendered.id = uuidv4 e,
              ServiceRendered.serviceName = ServiceRenderedPayload.serviceName payload,
              ServiceRendered.serviceDescription = ServiceRenderedPayload.serviceDescription payload,
              ServiceRendered.serviceAmount = ServiceRenderedPayload.serviceAmount payload,
              ServiceRendered.createdAt = ic_time e \<rparr>
      in case storage_get st i of
           Some saloon \<Rightarrow>
             if Saloon.owner saloon \<noteq> ic_caller e
             then (Err ''You are not the owner of this saloon'', st)
             else
               let servicesRendered = Saloon.servicesRendered saloon @ [serviceRendered];
                   Saloon' = saloon\<lparr> Saloon.servicesRendered := servicesRendered \<rparr>
               in (Ok Saloon', storage_insert (Saloon.id saloon) Saloon' st)
         | None \<Rightarrow> (Err ''Unable to carry out the following function'', st))"

text \<open>\<^verbatim>\<open>deleteSaloon\<close>. The lookup is itself a \<^verbatim>\<open>remove\<close>; the owner's branch removes
  the key a second time.\<close>

definition deleteSaloon :: "env \<Rightarrow> string \<Rightarrow> store \<Rightarrow> (Saloon, string) Result \<times> store" where
  "deleteSaloon e i st =
     (case storage_remove i st of
        (Some saloon, st1) \<Rightarrow>
          if Saloon.owner saloon \<noteq> ic_caller e
          then (Err ''You are not the owner of this saloon'', st1)
          else (Ok saloon, snd (storage_remove i st1))
      | (None, st1) \<Rightarrow>
          (Err (''couldn't delete saloon with this id='' @ i @ ''. saloon not found.''), st1))"

text \<open>\<^verbatim>\<open>rateSaloon\<close>. The first lookup yields the rating or, for an unknown id, an error
  object; adding a number to that object and dividing by 5 gives \<^verbatim>\<open>NaN\<close>. The second
  lookup decides the result. \<open>blend\<close> is the expression
  \<^verbatim>\<open>(saloonRating + rate) / 5\<close>, computed in doubles; the record that is replied and
  stored holds it as a \<^verbatim>\<open>float32\<close>.\<close>

fun blend :: "(number, string) Result \<Rightarrow> number \<Rightarrow> number" where
  "blend (Ok saloonRating) rate = num_div5 (num_add saloonRating rate)"
| "blend (Err _) rate = NaN"

definition rateSaloon :: "env \<Rightarrow> string \<Rightarrow> number \<Rightarrow> store \<Rightarrow> (Saloon, string) Result \<times> store" where
  "rateSaloon e i rate st =
     (if num_less rate (Num 0) \<or> num_less (Num 5) rate
      then (Err (''Error rating saloon with the id='' @ i @
                 ''. Invalid rating value. Value should not be more than 5 or less than 0''), st)
      else
        let saloonRating =
              (case storage_get st i of
                 Some saloon \<Rightarrow> Ok (Saloon.rating saloon)
               | None \<Rightarrow> Err (''Error updating saloon with the id='' @ i @ ''. Saloon not found''));
            rating = blend saloonRating rate
        in case storage_get st i of
             Some saloonData \<Rightarrow>
               let saloon = saloonData\<lparr> Saloon.rating := rating,
                                        Saloon.updatedAt := Some (ic_time e) \<rparr>
               in (Ok (encoded saloon), storage_insert (Saloon.id saloon) (encoded saloon) st)
           | None \<Rightarrow>
               (Err (''Error rating saloon with the id='' @ i @ ''. Saloon not found''), st))"

text \<open>\<^verbatim>\<open>updateSaloonById\<close>.\<close>

definition updateSaloonById ::
  "env \<Rightarrow> string \<Rightarrow> SaloonPayload \<Rightarrow> store \<Rightarrow> (Saloon, string) Result \<times> store" where
  "updateSaloonById e i payload st =
     (case storage_get st i of
        Some saloon \<Rightarrow>
          let updatedSaloon =
                saloon\<lparr> Saloon.saloonName := SaloonPayload.saloonName payload,
                        Saloon.saloonLocation := SaloonPayload.saloonLocation payload,
                        Saloon.attachmentURL := SaloonPayload.attachmentURL payload,
                        Saloon.updatedAt := Some (ic_time e) \<rparr>
          in (Ok updatedSaloon, storage_insert (Saloon.id saloon) updatedSaloon st)
      | None \<Rightarrow>
          (Err (''couldn't update the saloon with this id='' @ i @ ''. saloon not found''), st))"

section \<open>Sequences of calls\<close>

datatype call =
    GetAllSaloons
  | GetSaloonById string
  | CreateSaloon SaloonPayload
  | CreateService string ServiceRenderedPayload
  | DeleteSaloon string
  | RateSaloon string number
  | UpdateSaloonById string SaloonPayload

fun exec :: "env \<times> call \<Rightarrow> store \<Rightarrow> store" where
  "exec (e, GetAllSaloons) st = snd (getAllSaloons st)"
| "exec (e, GetSaloonById i) st = snd (getSaloonById i st)"
| "exec (e, CreateSaloon p) st = snd (createSaloon e p st)"
| "exec (e, CreateService i p) st = snd (createService e i p st)"
| "exec (e, DeleteSaloon i) st = snd (deleteSaloon e i st)"
| "exec (e, RateSaloon i r) st = snd (rateSaloon e i r st)"
| "exec (e, UpdateSaloonById i p) st = snd (updateSaloonById e i p st)"

text \<open>The table after a sequence of calls, the first call first, from the empty table.\<close>

definition run :: "(env \<times> call) list \<Rightarrow> store" where
  "run cs = fold exec cs []"

text \<open>Every entry of the table is keyed by the \<^verbatim>\<open>id\<close> field of its record.\<close>

definition keyed_by_id :: "store \<Rightarrow> bool" where
  "keyed_by_id st = list_all (\<lambda>(k, s). k = Saloon.id s) st"

section \<open>Example values\<close>

text \<open>Two callers, a payload, the saloon the first caller creates from it, and the table
  holding that saloon. The concrete instances of the theorems below are stated on them.\<close>

definition alice :: env where
  "alice = \<lparr> ic_caller = ''alice'', ic_time = 1000, uuidv4 = ''id-1'' \<rparr>"

definition bob :: env where
  "bob = \<lparr> ic_caller = ''bob'', ic_time = 2000, uuidv4 = ''id-2'' \<rparr>"

definition alice_later :: env where
  "alice_later = \<lparr> ic_caller = ''alice'', ic_time = 3000, uuidv4 = ''id-3'' \<rparr>"

definition alice_last :: env where
  "alice_last = \<lparr> ic_caller = ''alice'', ic_time = 4000, uuidv4 = ''id-4'' \<rparr>"

definition glow :: SaloonPayload where
  "glow = \<lparr> SaloonPayload.saloonName = ''Glow'',
            SaloonPayload.saloonLocation = ''Lagos'',
            SaloonPayload.attachmentURL = ''http://glow'' \<rparr>"

definition shine :: SaloonPayload where
  "shine = \<lparr> SaloonPayload.saloonName = ''Shine'',
             SaloonPayload.saloonLocation = ''Abuja'',
             SaloonPayload.attachmentURL = ''http://shine'' \<rparr>"

definition braids :: ServiceRenderedPayload where
  "braids = \<lparr> ServiceRenderedPayload.serviceName = ''Braids'',
              ServiceRenderedPayload.serviceDescription = ''Box braids'',
              ServiceRenderedPayload.serviceAmount = Num 40 \<rparr>"

definition nails :: ServiceRenderedPayload where
  "nails = \<lparr> ServiceRenderedPayload.serviceName = ''Nails'',
             ServiceRenderedPayload.serviceDescription = ''Gel nails'',
             ServiceRenderedPayload.serviceAmount = Num 25 \<rparr>"

definition glow_saloon :: Saloon where
  "glow_saloon = \<lparr> Saloon.owner = ''alice'', Saloon.id = ''id-1'',
                   Saloon.saloonName = ''Glow'', Saloon.saloonLocation = ''Lagos'',
                   Saloon.attachmentURL = ''http://glow'', Saloon.servicesRendered = [],
                   Saloon.rating = Num 1, Saloon.createdAt = 1000, Saloon.updatedAt = None \<rparr>"

definition glow_store :: store where
  "glow_store = [(''id-1'', glow_saloon)]"

section \<open>Facts about the table\<close>

lemma get_insert: "storage_get (storage_insert k v st) k' = (if k' = k then Some v else storage_get st k')"
  by (simp add: storage_get_def storage_insert_def update_conv')

lemma get_remove: "storage_get (snd (storage_remove k st)) k' = (if k' = k then None else storage_get st k')"
  by (simp add: storage_get_def storage_remove_def delete_conv')

lemma fst_remove: "fst (storage_remove k st) = storage_get st k"
  by (simp add: storage_get_def storage_remove_def)

lemma get_None_empty: "(\<forall>k. storage_get st k = None) \<longleftrightarrow> st = []"
  by (cases st) (auto simp: storage_get_def)

lemma get_in_values: "storage_get st k = Some s \<Longrightarrow> s \<in> set (storage_values st)"
  by (auto simp: storage_get_def storage_values_def dest!: map_of_SomeD intro: rev_image_eqI)

section \<open>The invariant of the table\<close>

lemma keyed_get: "keyed_by_id st \<Longrightarrow> storage_get st k = Some s \<Longrightarrow> Saloon.id s = k"
  by (auto simp: keyed_by_id_def storage_get_def list_all_iff dest!: map_of_SomeD)

lemma keyed_insert: "keyed_by_id st \<Longrightarrow> k = Saloon.id v \<Longrightarrow> keyed_by_id (storage_insert k v st)"
  by (induction st) (auto simp: keyed_by_id_def storage_insert_def)

lemma keyed_remove: "keyed_by_id st \<Longrightarrow> keyed_by_id (snd (storage_remove k st))"
  by (simp add: keyed_by_id_def storage_remove_def AList.delete_eq list_all_iff)

lemma keyed_createSaloon: "keyed_by_id st \<Longrightarrow> keyed_by_id (snd (createSaloon e p st))"
  by (simp add: createSaloon_def Let_def keyed_insert)

lemma keyed_createService: "keyed_by_id st \<Longrightarrow> keyed_by_id (snd (createService e i p st))"
  by (simp add: createService_def Let_def keyed_insert split: option.split)

lemma keyed_deleteSaloon: "keyed_by_id st \<Longrightarrow> keyed_by_id (snd (deleteSaloon e i st))"
  by (cases "storage_remove i st") (use keyed_remove[of st i] keyed_remove in \<open>auto simp: deleteSaloon_def split: option.split\<close>)

lemma keyed_rateSaloon: "keyed_by_id st \<Longrightarrow> keyed_by_id (snd (rateSaloon e i r st))"
  by (simp add: rateSaloon_def encoded_def Let_def keyed_insert split: option.split)

lemma keyed_updateSaloonById: "keyed_by_id st \<Longrightarrow> keyed_by_id (snd (updateSaloonById e i p st))"
  by (simp add: updateSaloonById_def Let_def keyed_insert split: option.split)

lemma keyed_exec: "keyed_by_id st \<Longrightarrow> keyed_by_id (exec c st)"
proof (cases c)
  case (Pair e op)
  assume inv: "keyed_by_id st"
  show ?thesis
    by (cases op)
       (simp_all add: Pair inv getAllSaloons_def Let_def getSaloonById_def keyed_createSaloon
          keyed_createService keyed_deleteSaloon keyed_rateSaloon keyed_updateSaloonById
          split: option.split)
qed

lemma keyed_fold: "keyed_by_id st \<Longrightarrow> keyed_by_id (fold exec cs st)"
  by (induction cs arbitrary: st) (simp_all add: keyed_exec)

lemma keyed_empty: "keyed_by_id []"
  by (simp add: keyed_by_id_def)

lemma keyed_run: "keyed_by_id (run cs)"
  unfolding run_def by (rule keyed_fold [OF keyed_empty])

lemma keyed_glow_store: "keyed_by_id glow_store"
  by (simp add: keyed_by_id_def glow_store_def glow_saloon_def)

lemma get_glow_store: "storage_get glow_store ''id-1'' = Some glow_saloon"
  by (simp add: storage_get_def glow_store_def)


section \<open>Facts about the arithmetic\<close>













lemma float32_six_fifths: "float32 1.2 = Num (5033165 / 4194304)"
  by code_simp

lemma double_six_fifths: "double 1.2 = Num (5404319552844595 / 4503599627370496)"
  by code_simp

lemma double_sum_rounds:
  "num_add (double 0.2) (double 0.1) = Num (1351079888211149 / 4503599627370496) \<and>
   double 0.3 = Num (5404319552844595 / 18014398509481984)"
  by code_simp

lemma double_blend_rounds:
  "num_div5 (num_add (double 0.2) (double 0.1)) = Num (4323455642275677 / 72057594037927936) \<and>
   double 0.06 = Num (1080863910568919 / 18014398509481984)"
  by code_simp

lemma float32_blend_rounds:
  "float32 0.2 = Num (13421773 / 67108864) \<and>
   fround (num_div5 (num_add (float32 0.2) (double 0.1))) = Num (1006633 / 16777216)"
  by code_simp

section \<open>The claims\<close>

text \<open>
  The operations return their errors as messages. The kinds the specification speaks of
  are read off its table of interfaces: \<^verbatim>\<open>Invalid id\<close>, \<^verbatim>\<open>Missing required fields in
  payload\<close> and the out-of-range message of \<^verbatim>\<open>rateSaloon\<close> are invalid arguments;
  \<^verbatim>\<open>You are not the owner of this saloon\<close> is the denied permission; the messages
  for an id that does not resolve are the not-found errors; \<^verbatim>\<open>No saloons found.\<close> is
  the error of the empty table.

  Where a claim says that a record is stored back under the id of the call, the theorem
  assumes \<^const>\<open>keyed_by_id\<close>: the code inserts under the \<^verbatim>\<open>id\<close> field of the record it
  read, and claim C10 shows that in every table the operations can produce this field is
  the key.
\<close>



text \<open>
  Claim C2. When \<open>i\<close> holds a saloon whose owner is not the caller, \<^verbatim>\<open>deleteSaloon\<close>
  returns the denied-permission error, and the table it leaves has no entry for \<open>i\<close>: a
  following \<^verbatim>\<open>getSaloonById\<close> answers that the saloon does not exist. (Keys are
  generated uuids and never empty; for the empty id the query answers \<^verbatim>\<open>Invalid id\<close>
  before it looks anything up, hence \<open>i \<noteq> []\<close> for the query.)
\<close>

theorem deleteSaloon_not_owner_removes:
  assumes "storage_get st i = Some s"
    and "Saloon.owner s \<noteq> ic_caller e"
  shows "fst (deleteSaloon e i st) = Err ''You are not the owner of this saloon'' \<and>
         storage_get (snd (deleteSaloon e i st)) i = None \<and>
         (i \<noteq> [] \<longrightarrow>
            fst (getSaloonById i (snd (deleteSaloon e i st))) =
              Err (''Saloon with id='' @ i @ '' does not exist''))"
proof -
  have d: "deleteSaloon e i st =
             (Err ''You are not the owner of this saloon'', snd (storage_remove i st))"
    using assms fst_remove [of i st]
    by (cases "storage_remove i st") (simp add: deleteSaloon_def)
  show ?thesis
    by (simp add: d get_remove getSaloonById_def)
qed

theorem deleteSaloon_not_owner_removes_witness:
  "storage_get glow_store ''id-1'' = Some glow_saloon \<and>
   Saloon.owner glow_saloon \<noteq> ic_caller bob \<and> ''id-1'' \<noteq> [] \<and>
   deleteSaloon bob ''id-1'' glow_store = (Err ''You are not the owner of this saloon'', []) \<and>
   fst (getSaloonById ''id-1'' (snd (deleteSaloon bob ''id-1'' glow_store))) =
     Err ''Saloon with id=id-1 does not exist''"
proof -
  have h: "Saloon.owner glow_saloon \<noteq> ic_caller bob"
    by (simp add: glow_saloon_def bob_def)
  have d: "deleteSaloon bob ''id-1'' glow_store = (Err ''You are not the owner of this saloon'', [])"
    by (simp add: deleteSaloon_def storage_remove_def glow_store_def glow_saloon_def bob_def)
  show ?thesis
    using deleteSaloon_not_owner_removes [OF get_glow_store h] h d
    by (simp add: get_glow_store)
qed

text \<open>
  Claim C3. When \<open>i\<close> holds a saloon whose owner is not the caller, \<^verbatim>\<open>createService\<close>
  returns the denied-permission error and leaves the table as it was, so the saloon and its
  \<^verbatim>\<open>servicesRendered\<close> are unchanged. The existence check comes first: when \<open>i\<close> holds
  nothing the not-found error is returned whoever calls.
\<close>

theorem createService_rejects:
  "(storage_get st i = Some s \<and> Saloon.owner s \<noteq> ic_caller e \<longrightarrow>
      createService e i p st = (Err ''You are not the owner of this saloon'', st) \<and>
      storage_get (snd (createService e i p st)) i = Some s) \<and>
   (storage_get st i = None \<longrightarrow>
      createService e i p st = (Err ''Unable to carry out the following function'', st))"
  by (simp add: createService_def Let_def)

theorem createService_rejects_witness:
  "storage_get glow_store ''id-1'' = Some glow_saloon \<and>
   Saloon.owner glow_saloon \<noteq> ic_caller bob \<and>
   createService bob ''id-1'' braids glow_store =
     (Err ''You are not the owner of this saloon'', glow_store) \<and>
   storage_get glow_store ''id-7'' = None \<and>
   createService bob ''id-7'' braids glow_store =
     (Err ''Unable to carry out the following function'', glow_store) \<and>
   createService alice ''id-7'' braids glow_store =
     (Err ''Unable to carry out the following function'', glow_store)"
proof -
  have h: "Saloon.owner glow_saloon \<noteq> ic_caller bob"
    by (simp add: glow_saloon_def bob_def)
  have n: "storage_get glow_store ''id-7'' = None"
    by (simp add: storage_get_def glow_store_def)
  show ?thesis
    using createService_rejects [of glow_store "''id-1''" glow_saloon bob braids]
      createService_rejects [of glow_store "''id-7''" glow_saloon bob braids]
      createService_rejects [of glow_store "''id-7''" glow_saloon alice braids]
    by (simp add: get_glow_store h n)
qed

text \<open>
  Claim C4. When \<open>i\<close> holds a saloon whose owner is the caller, \<^verbatim>\<open>createService\<close>
  returns \<^verbatim>\<open>Ok\<close> of the saloon with one new service appended after the services it
  had, stores that record under \<open>i\<close> and leaves \<^verbatim>\<open>updatedAt\<close> alone. A second call by the
  owner appends after the first; when the generator hands out two different ids, the two
  services carry different ids.
\<close>

theorem createService_owner_appends:
  assumes "keyed_by_id st"
    and "storage_get st i = Some s"
    and "Saloon.owner s = ic_caller e"
  shows "createService e i p st =
           (Ok (s\<lparr> Saloon.servicesRendered := Saloon.servicesRendered s @
                  [\<lparr> ServiceRendered.id = uuidv4 e,
                     ServiceRendered.serviceName = ServiceRenderedPayload.serviceName p,
                     ServiceRendered.serviceDescription = ServiceRenderedPayload.serviceDescription p,
                     ServiceRendered.serviceAmount = ServiceRenderedPayload.serviceAmount p,
                     ServiceRendered.createdAt = ic_time e \<rparr>] \<rparr>),
            storage_insert i
              (s\<lparr> Saloon.servicesRendered := Saloon.servicesRendered s @
                  [\<lparr> ServiceRendered.id = uuidv4 e,
                     ServiceRendered.serviceName = ServiceRenderedPayload.serviceName p,
                     ServiceRendered.serviceDescription = ServiceRenderedPayload.serviceDescription p,
                     ServiceRendered.serviceAmount = ServiceRenderedPayload.serviceAmount p,
                     ServiceRendered.createdAt = ic_time e \<rparr>] \<rparr>) st) \<and>
         (\<exists>s'. fst (createService e i p st) = Ok s' \<and>
               storage_get (snd (createService e i p st)) i = Some s' \<and>
               butlast (Saloon.servicesRendered s') = Saloon.servicesRendered s \<and>
               Saloon.updatedAt s' = Saloon.updatedAt s) \<and>
         (ic_caller e2 = ic_caller e \<and> uuidv4 e2 \<noteq> uuidv4 e \<longrightarrow>
            (\<exists>s' a b. fst (createService e2 i p2 (snd (createService e i p st))) = Ok s' \<and>
                storage_get (snd (createService e2 i p2 (snd (createService e i p st)))) i = Some s' \<and>
                Saloon.servicesRendered s' = Saloon.servicesRendered s @ [a, b] \<and>
                a = \<lparr> ServiceRendered.id = uuidv4 e,
                     ServiceRendered.serviceName = ServiceRenderedPayload.serviceName p,
                     ServiceRendered.serviceDescription = ServiceRenderedPayload.serviceDescription p,
                     ServiceRendered.serviceAmount = ServiceRenderedPayload.serviceAmount p,
                     ServiceRendered.createdAt = ic_time e \<rparr> \<and>
                b = \<lparr> ServiceRendered.id = uuidv4 e2,
                     ServiceRendered.serviceName = ServiceRenderedPayload.serviceName p2,
                     ServiceRendered.serviceDescription = ServiceRenderedPayload.serviceDescription p2,
                     ServiceRendered.serviceAmount = ServiceRenderedPayload.serviceAmount p2,
                     ServiceRendered.createdAt = ic_time e2 \<rparr> \<and>
                ServiceRendered.id a \<noteq> ServiceRendered.id b))"
proof -
  have k: "Saloon.id s = i" using assms(1,2) by (rule keyed_get)
  have c: "createService e i p st =
           (Ok (s\<lparr> Saloon.servicesRendered := Saloon.servicesRendered s @
                  [\<lparr> ServiceRendered.id = uuidv4 e,
                     ServiceRendered.serviceName = ServiceRenderedPayload.serviceName p,
                     ServiceRendered.serviceDescription = ServiceRenderedPayload.serviceDescription p,
                     ServiceRendered.serviceAmount = ServiceRenderedPayload.serviceAmount p,
                     ServiceRendered.createdAt = ic_time e \<rparr>] \<rparr>),
            storage_insert i
              (s\<lparr> Saloon.servicesRendered := Saloon.servicesRendered s @
                  [\<lparr> ServiceRendered.id = uuidv4 e,
                     ServiceRendered.serviceName = ServiceRenderedPayload.serviceName p,
                     ServiceRendered.serviceDescription = ServiceRenderedPayload.serviceDescription p,
                     ServiceRendered.serviceAmount = ServiceRenderedPayload.serviceAmount p,
                     ServiceRendered.createdAt = ic_time e \<rparr>] \<rparr>) st)"
    using assms(2,3) k by (simp add: createService_def Let_def)
  show ?thesis
    apply (simp only: c fst_conv snd_conv)
    apply (intro conjI impI)
      apply simp
     apply (simp add: get_insert)
    apply (auto simp: createService_def Let_def get_insert assms(3) k)
    done
qed

theorem createService_owner_appends_witness:
  "keyed_by_id glow_store \<and> storage_get glow_store ''id-1'' = Some glow_saloon \<and>
   Saloon.owner glow_saloon = ic_caller alice_later \<and>
   ic_caller alice_last = ic_caller alice_later \<and> uuidv4 alice_last \<noteq> uuidv4 alice_later \<and>
   createService alice_later ''id-1'' braids glow_store =
     (Ok (glow_saloon\<lparr> Saloon.servicesRendered :=
            [\<lparr> ServiceRendered.id = ''id-3'', ServiceRendered.serviceName = ''Braids'',
               ServiceRendered.serviceDescription = ''Box braids'',
               ServiceRendered.serviceAmount = Num 40, ServiceRendered.createdAt = 3000 \<rparr>] \<rparr>),
      [(''id-1'', glow_saloon\<lparr> Saloon.servicesRendered :=
            [\<lparr> ServiceRendered.id = ''id-3'', ServiceRendered.serviceName = ''Braids'',
               ServiceRendered.serviceDescription = ''Box braids'',
               ServiceRendered.serviceAmount = Num 40, ServiceRendered.createdAt = 3000 \<rparr>] \<rparr>)]) \<and>
   fst (createService alice_last ''id-1'' nails
          (snd (createService alice_later ''id-1'' braids glow_store))) =
     Ok (glow_saloon\<lparr> Saloon.servicesRendered :=
            [\<lparr> ServiceRendered.id = ''id-3'', ServiceRendered.serviceName = ''Braids'',
               ServiceRendered.serviceDescription = ''Box braids'',
               ServiceRendered.serviceAmount = Num 40, ServiceRendered.createdAt = 3000 \<rparr>,
             \<lparr> ServiceRendered.id = ''id-4'', ServiceRendered.serviceName = ''Nails'',
               ServiceRendered.serviceDescription = ''Gel nails'',
               ServiceRendered.serviceAmount = Num 25, ServiceRendered.createdAt = 4000 \<rparr>] \<rparr>)"
proof -
  have h: "Saloon.owner glow_saloon = ic_caller alice_later"
    by (simp add: glow_saloon_def alice_later_def)
  have c: "ic_caller alice_last = ic_caller alice_later"
    by (simp add: alice_last_def alice_later_def)
  have u: "uuidv4 alice_last \<noteq> uuidv4 alice_later"
    by (simp add: alice_last_def alice_later_def)
  have g: "Saloon.servicesRendered glow_saloon = []" by (simp add: glow_saloon_def)
  have i: "storage_insert ''id-1'' x glow_store = [(''id-1'', x)]" for x
    by (simp add: storage_insert_def glow_store_def)
  have one: "createService alice_later ''id-1'' braids glow_store =
     (Ok (glow_saloon\<lparr> Saloon.servicesRendered :=
            [\<lparr> ServiceRendered.id = ''id-3'', ServiceRendered.serviceName = ''Braids'',
               ServiceRendered.serviceDescription = ''Box braids'',
               ServiceRendered.serviceAmount = Num 40, ServiceRendered.createdAt = 3000 \<rparr>] \<rparr>),
      [(''id-1'', glow_saloon\<lparr> Saloon.servicesRendered :=
            [\<lparr> ServiceRendered.id = ''id-3'', ServiceRendered.serviceName = ''Braids'',
               ServiceRendered.serviceDescription = ''Box braids'',
               ServiceRendered.serviceAmount = Num 40, ServiceRendered.createdAt = 3000 \<rparr>] \<rparr>)])"
    using createService_owner_appends
            [OF keyed_glow_store get_glow_store h, of braids alice_last nails]
    by (simp add: g i alice_later_def braids_def)
  have two: "fst (createService alice_last ''id-1'' nails
          (snd (createService alice_later ''id-1'' braids glow_store))) =
     Ok (glow_saloon\<lparr> Saloon.servicesRendered :=
            [\<lparr> ServiceRendered.id = ''id-3'', ServiceRendered.serviceName = ''Braids'',
               ServiceRendered.serviceDescription = ''Box braids'',
               ServiceRendered.serviceAmount = Num 40, ServiceRendered.createdAt = 3000 \<rparr>,
             \<lparr> ServiceRendered.id = ''id-4'', ServiceRendered.serviceName = ''Nails'',
               ServiceRendered.serviceDescription = ''Gel nails'',
               ServiceRendered.serviceAmount = Num 25, ServiceRendered.createdAt = 4000 \<rparr>] \<rparr>)"
    unfolding one snd_conv
    by (simp add: createService_def Let_def storage_get_def glow_saloon_def alice_last_def nails_def)
  show ?thesis
    using keyed_glow_store get_glow_store h c u one two by simp
qed

text \<open>
  Claim C5. \<^verbatim>\<open>getAllSaloons\<close> returns an error when the table holds no saloon, and
  otherwise \<^verbatim>\<open>Ok\<close> of the list of the table's values, in which every stored saloon
  occurs. After one successful \<^verbatim>\<open>createSaloon\<close> on the empty table the list is that one
  saloon.
\<close>

theorem getAllSaloons_cases:
  "((\<forall>k. storage_get st k = None) \<longrightarrow> getAllSaloons st = (Err ''No saloons found.'', st)) \<and>
   ((\<exists>k. storage_get st k \<noteq> None) \<longrightarrow>
      getAllSaloons st = (Ok (storage_values st), st) \<and>
      (\<forall>k s. storage_get st k = Some s \<longrightarrow> s \<in> set (storage_values st))) \<and>
   (fst (createSaloon e p []) = Ok s \<longrightarrow>
      fst (getAllSaloons (snd (createSaloon e p []))) = Ok [s])"
proof (intro conjI impI)
  assume "\<forall>k. storage_get st k = None"
  then have "st = []" by (simp add: get_None_empty)
  then show "getAllSaloons st = (Err ''No saloons found.'', st)"
    by (simp add: getAllSaloons_def storage_values_def)
next
  assume "\<exists>k. storage_get st k \<noteq> None"
  then have "st \<noteq> []" by (auto simp: storage_get_def)
  then show "getAllSaloons st = (Ok (storage_values st), st)"
    by (simp add: getAllSaloons_def storage_values_def)
next
  show "\<forall>k s. storage_get st k = Some s \<longrightarrow> s \<in> set (storage_values st)"
    by (blast intro: get_in_values)
next
  assume "fst (createSaloon e p []) = Ok s"
  then show "fst (getAllSaloons (snd (createSaloon e p []))) = Ok [s]"
    by (auto simp: createSaloon_def getAllSaloons_def storage_values_def storage_insert_def
          Let_def split: if_splits)
qed

theorem getAllSaloons_cases_witness:
  "(\<forall>k. storage_get [] k = None) \<and> getAllSaloons [] = (Err ''No saloons found.'', []) \<and>
   (\<exists>k. storage_get glow_store k \<noteq> None) \<and>
   getAllSaloons glow_store = (Ok [glow_saloon], glow_store) \<and>
   fst (createSaloon alice glow []) = Ok glow_saloon \<and>
   fst (getAllSaloons (snd (createSaloon alice glow []))) = Ok [glow_saloon]"
proof -
  have e: "\<forall>k. storage_get [] k = None" by (simp add: storage_get_def)
  have n: "\<exists>k. storage_get glow_store k \<noteq> None"
    using get_glow_store by (intro exI [of _ "''id-1''"]) simp
  have c: "fst (createSaloon alice glow []) = Ok glow_saloon"
    by (simp add: createSaloon_def Let_def alice_def glow_def glow_saloon_def)
  have v: "storage_values glow_store = [glow_saloon]"
    by (simp add: storage_values_def glow_store_def)
  show ?thesis
    using getAllSaloons_cases [of "[]" alice glow glow_saloon]
      getAllSaloons_cases [of glow_store alice glow glow_saloon] e n c
    by (simp add: v)
qed

text \<open>
  Claim C6. \<^verbatim>\<open>createSaloon\<close> returns the invalid-argument error and leaves the table
  as it was when one of the three text fields is empty. Otherwise it returns \<^verbatim>\<open>Ok\<close> of
  the record owned by the caller, with rating 1, no services, \<^verbatim>\<open>createdAt\<close> the time of
  the call, no \<^verbatim>\<open>updatedAt\<close> and the generated id, and inserts that record under that id,
  touching no other key.
\<close>

theorem createSaloon_cases:
  "(SaloonPayload.saloonName p = [] \<or> SaloonPayload.saloonLocation p = [] \<or>
    SaloonPayload.attachmentURL p = [] \<longrightarrow>
      createSaloon e p st = (Err ''Missing required fields in payload'', st)) \<and>
   (SaloonPayload.saloonName p \<noteq> [] \<and> SaloonPayload.saloonLocation p \<noteq> [] \<and>
    SaloonPayload.attachmentURL p \<noteq> [] \<longrightarrow>
      createSaloon e p st =
        (Ok \<lparr> Saloon.owner = ic_caller e, Saloon.id = uuidv4 e,
              Saloon.saloonName = SaloonPayload.saloonName p,
              Saloon.saloonLocation = SaloonPayload.saloonLocation p,
              Saloon.attachmentURL = SaloonPayload.attachmentURL p,
              Saloon.servicesRendered = [], Saloon.rating = Num 1,
              Saloon.createdAt = ic_time e, Saloon.updatedAt = None \<rparr>,
         storage_insert (uuidv4 e)
           \<lparr> Saloon.owner = ic_caller e, Saloon.id = uuidv4 e,
             Saloon.saloonName = SaloonPayload.saloonName p,
             Saloon.saloonLocation = SaloonPayload.saloonLocation p,
             Saloon.attachmentURL = SaloonPayload.attachmentURL p,
             Saloon.servicesRendered = [], Saloon.rating = Num 1,
             Saloon.createdAt = ic_time e, Saloon.updatedAt = None \<rparr> st) \<and>
      storage_get (snd (createSaloon e p st)) (uuidv4 e) =
        Some \<lparr> Saloon.owner = ic_caller e, Saloon.id = uuidv4 e,
               Saloon.saloonName = SaloonPayload.saloonName p,
               Saloon.saloonLocation = SaloonPayload.saloonLocation p,
               Saloon.attachmentURL = SaloonPayload.attachmentURL p,
               Saloon.servicesRendered = [], Saloon.rating = Num 1,
               Saloon.createdAt = ic_time e, Saloon.updatedAt = None \<rparr> \<and>
      (\<forall>k. k \<noteq> uuidv4 e \<longrightarrow> storage_get (snd (createSaloon e p st)) k = storage_get st k))"
  by (auto simp: createSaloon_def Let_def get_insert)

theorem createSaloon_cases_witness:
  "SaloonPayload.saloonName glow \<noteq> [] \<and> SaloonPayload.saloonLocation glow \<noteq> [] \<and>
   SaloonPayload.attachmentURL glow \<noteq> [] \<and>
   createSaloon alice glow [] = (Ok glow_saloon, glow_store) \<and>
   SaloonPayload.saloonLocation (glow\<lparr> SaloonPayload.saloonLocation := [] \<rparr>) = [] \<and>
   createSaloon alice (glow\<lparr> SaloonPayload.saloonLocation := [] \<rparr>) glow_store =
     (Err ''Missing required fields in payload'', glow_store)"
proof -
  have i: "storage_insert ''id-1'' x [] = [(''id-1'', x)]" for x
    by (simp add: storage_insert_def)
  show ?thesis
    using createSaloon_cases [of glow alice "[]"]
      createSaloon_cases [of "glow\<lparr> SaloonPayload.saloonLocation := [] \<rparr>" alice glow_store]
    by (simp add: glow_def alice_def glow_saloon_def glow_store_def i)
qed

text \<open>
  Claim C7. When \<open>i\<close> holds a saloon, \<^verbatim>\<open>updateSaloonById\<close> returns \<^verbatim>\<open>Ok\<close> of the
  record with the three text fields taken from the payload and \<^verbatim>\<open>updatedAt\<close> set to the
  time of the call, whatever it was before; the other fields are those of the stored
  record; the new record is stored under \<open>i\<close>. When \<open>i\<close> holds nothing it returns the
  not-found error and leaves the table as it was.
\<close>

theorem updateSaloonById_cases:
  "(keyed_by_id st \<and> storage_get st i = Some s \<longrightarrow>
      updateSaloonById e i p st =
        (Ok (s\<lparr> Saloon.saloonName := SaloonPayload.saloonName p,
                 Saloon.saloonLocation := SaloonPayload.saloonLocation p,
                 Saloon.attachmentURL := SaloonPayload.attachmentURL p,
                 Saloon.updatedAt := Some (ic_time e) \<rparr>),
         storage_insert i
           (s\<lparr> Saloon.saloonName := SaloonPayload.saloonName p,
                Saloon.saloonLocation := SaloonPayload.saloonLocation p,
                Saloon.attachmentURL := SaloonPayload.attachmentURL p,
                Saloon.updatedAt := Some (ic_time e) \<rparr>) st) \<and>
      storage_get (snd (updateSaloonById e i p st)) i =
        Some (s\<lparr> Saloon.saloonName := SaloonPayload.saloonName p,
                   Saloon.saloonLocation := SaloonPayload.saloonLocation p,
                   Saloon.attachmentURL := SaloonPayload.attachmentURL p,
                   Saloon.updatedAt := Some (ic_time e) \<rparr>)) \<and>
   (storage_get st i = None \<longrightarrow>
      updateSaloonById e i p st =
        (Err (''couldn't update the saloon with this id='' @ i @ ''. saloon not found''), st))"
proof (intro conjI impI)
  assume a: "keyed_by_id st \<and> storage_get st i = Some s"
  then have k: "Saloon.id s = i" by (blast intro: keyed_get)
  show u: "updateSaloonById e i p st =
        (Ok (s\<lparr> Saloon.saloonName := SaloonPayload.saloonName p,
                 Saloon.saloonLocation := SaloonPayload.saloonLocation p,
                 Saloon.attachmentURL := SaloonPayload.attachmentURL p,
                 Saloon.updatedAt := Some (ic_time e) \<rparr>),
         storage_insert i
           (s\<lparr> Saloon.saloonName := SaloonPayload.saloonName p,
                Saloon.saloonLocation := SaloonPayload.saloonLocation p,
                Saloon.attachmentURL := SaloonPayload.attachmentURL p,
                Saloon.updatedAt := Some (ic_time e) \<rparr>) st)"
    using a k by (simp add: updateSaloonById_def Let_def)
  show "storage_get (snd (updateSaloonById e i p st)) i =
        Some (s\<lparr> Saloon.saloonName := SaloonPayload.saloonName p,
                   Saloon.saloonLocation := SaloonPayload.saloonLocation p,
                   Saloon.attachmentURL := SaloonPayload.attachmentURL p,
                   Saloon.updatedAt := Some (ic_time e) \<rparr>)"
    by (simp add: u get_insert)
next
  assume "storage_get st i = None"
  then show "updateSaloonById e i p st =
        (Err (''couldn't update the saloon with this id='' @ i @ ''. saloon not found''), st)"
    by (simp add: updateSaloonById_def)
qed

theorem updateSaloonById_cases_witness:
  "keyed_by_id glow_store \<and> storage_get glow_store ''id-1'' = Some glow_saloon \<and>
   Saloon.updatedAt glow_saloon = None \<and>
   updateSaloonById bob ''id-1'' shine glow_store =
     (Ok (glow_saloon\<lparr> Saloon.saloonName := ''Shine'', Saloon.saloonLocation := ''Abuja'',
            Saloon.attachmentURL := ''http://shine'', Saloon.updatedAt := Some 2000 \<rparr>),
      [(''id-1'', glow_saloon\<lparr> Saloon.saloonName := ''Shine'', Saloon.saloonLocation := ''Abuja'',
            Saloon.attachmentURL := ''http://shine'', Saloon.updatedAt := Some 2000 \<rparr>)]) \<and>
   storage_get glow_store ''id-7'' = None \<and>
   updateSaloonById bob ''id-7'' shine glow_store =
     (Err ''couldn't update the saloon with this id=id-7. saloon not found'', glow_store)"
proof -
  have n: "storage_get glow_store ''id-7'' = None"
    by (simp add: storage_get_def glow_store_def)
  have u: "Saloon.updatedAt glow_saloon = None" by (simp add: glow_saloon_def)
  have i: "storage_insert ''id-1'' x glow_store = [(''id-1'', x)]" for x
    by (simp add: storage_insert_def glow_store_def)
  show ?thesis
    using updateSaloonById_cases [of glow_store "''id-1''" glow_saloon bob shine]
      updateSaloonById_cases [of glow_store "''id-7''" glow_saloon bob shine]
    by (simp add: keyed_glow_store get_glow_store n u i bob_def shine_def)
qed

text \<open>
  Claim C8. \<^verbatim>\<open>updateSaloonById\<close> never looks at the caller: two calls that differ only
  in the caller return the same result and leave the same table. In particular a caller
  who does not own the saloon under \<open>i\<close> updates it.
\<close>

theorem updateSaloonById_ignores_caller:
  "updateSaloonById (e\<lparr> ic_caller := c1 \<rparr>) i p st = updateSaloonById (e\<lparr> ic_caller := c2 \<rparr>) i p st \<and>
   (storage_get st i = Some s \<and> Saloon.owner s \<noteq> ic_caller e \<longrightarrow>
      (\<exists>s'. fst (updateSaloonById e i p st) = Ok s' \<and>
            Saloon.saloonName s' = SaloonPayload.saloonName p \<and>
            Saloon.saloonLocation s' = SaloonPayload.saloonLocation p \<and>
            Saloon.attachmentURL s' = SaloonPayload.attachmentURL p))"
  by (simp add: updateSaloonById_def Let_def split: option.split)

theorem updateSaloonById_ignores_caller_witness:
  "storage_get glow_store ''id-1'' = Some glow_saloon \<and>
   Saloon.owner glow_saloon \<noteq> ic_caller bob \<and>
   (\<exists>s'. fst (updateSaloonById bob ''id-1'' shine glow_store) = Ok s' \<and>
         Saloon.saloonName s' = ''Shine'' \<and> Saloon.owner s' = ''alice'') \<and>
   updateSaloonById (bob\<lparr> ic_caller := ''alice'' \<rparr>) ''id-1'' shine glow_store =
     updateSaloonById (bob\<lparr> ic_caller := ''bob'' \<rparr>) ''id-1'' shine glow_store"
proof -
  have h: "Saloon.owner glow_saloon \<noteq> ic_caller bob"
    by (simp add: glow_saloon_def bob_def)
  have o: "Saloon.owner s' = ''alice''"
    if "fst (updateSaloonById bob ''id-1'' shine glow_store) = Ok s'" for s'
    using that by (auto simp: updateSaloonById_def Let_def get_glow_store glow_saloon_def)
  show ?thesis
    using updateSaloonById_ignores_caller
            [where e = bob and ?c1.0 = "''alice''" and ?c2.0 = "''bob''" and i = "''id-1''"
               and p = shine and st = glow_store and s = glow_saloon] h o
    by (auto simp: get_glow_store shine_def)
qed

text \<open>
  Claim C10. In every table that a sequence of calls of the exposed operations produces
  from the empty table, each stored saloon is keyed by its own \<^verbatim>\<open>id\<close> field; and each of
  the five updating operations keeps \<^const>\<open>keyed_by_id\<close>.
\<close>

theorem store_key_invariant:
  "(\<forall>k s. storage_get (run cs) k = Some s \<longrightarrow> Saloon.id s = k) \<and>
   (keyed_by_id st \<longrightarrow>
      keyed_by_id (snd (createSaloon e p st)) \<and>
      keyed_by_id (snd (createService e i sp st)) \<and>
      keyed_by_id (snd (rateSaloon e i r st)) \<and>
      keyed_by_id (snd (updateSaloonById e i p st)) \<and>
      keyed_by_id (snd (deleteSaloon e i st)))"
  using keyed_get [OF keyed_run]
  by (simp add: keyed_createSaloon keyed_createService keyed_rateSaloon
        keyed_updateSaloonById keyed_deleteSaloon)

theorem store_key_invariant_witness:
  "storage_get (run [(alice, CreateSaloon glow), (bob, RateSaloon ''id-1'' (Num 5))]) ''id-1'' =
     Some (glow_saloon\<lparr> Saloon.rating := Num (5033165 / 4194304), Saloon.updatedAt := Some 2000 \<rparr>) \<and>
   Saloon.id (glow_saloon\<lparr> Saloon.rating := Num (5033165 / 4194304), Saloon.updatedAt := Some 2000 \<rparr>) = ''id-1'' \<and>
   keyed_by_id glow_store \<and>
   keyed_by_id (snd (createSaloon bob shine glow_store)) \<and>
   keyed_by_id (snd (createService bob ''id-1'' braids glow_store)) \<and>
   keyed_by_id (snd (rateSaloon bob ''id-1'' (Num 5) glow_store)) \<and>
   keyed_by_id (snd (updateSaloonById bob ''id-1'' shine glow_store)) \<and>
   keyed_by_id (snd (deleteSaloon bob ''id-1'' glow_store))"
proof -
  have one: "fround (double (6 / 5)) = Num (5033165 / 4194304)"
    by code_simp
  have six: "double 6 = Num 6"
    by code_simp
  have r: "run [(alice, CreateSaloon glow), (bob, RateSaloon ''id-1'' (Num 5))] =
             [(''id-1'', glow_saloon\<lparr> Saloon.rating := Num (5033165 / 4194304), Saloon.updatedAt := Some 2000 \<rparr>)]"
    by (simp add: run_def createSaloon_def rateSaloon_def Let_def storage_insert_def
          storage_get_def encoded_def alice_def bob_def glow_def glow_saloon_def six one
          del: fround.simps)
  have g: "storage_get (run [(alice, CreateSaloon glow), (bob, RateSaloon ''id-1'' (Num 5))]) ''id-1'' =
             Some (glow_saloon\<lparr> Saloon.rating := Num (5033165 / 4194304), Saloon.updatedAt := Some 2000 \<rparr>)"
    by (simp add: r storage_get_def)
  show ?thesis
    using store_key_invariant
            [of "[(alice, CreateSaloon glow), (bob, RateSaloon ''id-1'' (Num 5))]"
                glow_store bob shine "''id-1''" braids "Num 5"]
      g keyed_glow_store
    by simp
qed

text \<open>
  Claim C9. \<^verbatim>\<open>getSaloonById\<close> returns \<^verbatim>\<open>Invalid id\<close> for the empty id whatever the
  table holds, the not-found error for a non-empty id that holds nothing, and \<^verbatim>\<open>Ok\<close> of
  the stored record otherwise; the table is the same afterwards in every case.
\<close>

theorem getSaloonById_cases:
  "getSaloonById [] st = (Err ''Invalid id'', st) \<and>
   (i \<noteq> [] \<and> storage_get st i = None \<longrightarrow>
      getSaloonById i st = (Err (''Saloon with id='' @ i @ '' does not exist''), st)) \<and>
   (i \<noteq> [] \<and> storage_get st i = Some s \<longrightarrow> getSaloonById i st = (Ok s, st)) \<and>
   snd (getSaloonById i st) = st"
  by (simp add: getSaloonById_def split: option.split)

theorem getSaloonById_cases_witness:
  "''id-1'' \<noteq> [] \<and> storage_get glow_store ''id-1'' = Some glow_saloon \<and>
   getSaloonById ''id-1'' glow_store = (Ok glow_saloon, glow_store) \<and>
   ''id-7'' \<noteq> [] \<and> storage_get glow_store ''id-7'' = None \<and>
   getSaloonById ''id-7'' glow_store = (Err ''Saloon with id=id-7 does not exist'', glow_store) \<and>
   getSaloonById [] glow_store = (Err ''Invalid id'', glow_store)"
proof -
  have n: "storage_get glow_store ''id-7'' = None"
    by (simp add: storage_get_def glow_store_def)
  show ?thesis
    using getSaloonById_cases [of glow_store "''id-1''" glow_saloon]
      getSaloonById_cases [of glow_store "''id-7''" glow_saloon]
    by (simp add: get_glow_store n)
qed

end
